theory Spec2Isabelle
  imports Main
begin

section \<open>The server of wararka/wiilwaal as state-passing functions\<close>

text \<open>
  The repository is an Express application over one SQLite database. Two revisions of
  the server are in the sources and the development keeps them apart:
  \<^item> \<^verbatim>\<open>src/server.js\<close>, lines 299 to 1084 (all tables, chat, admin and password
    routes); its handlers keep their plain names here;
  \<^item> \<^verbatim>\<open>src/unnamed/part_000\<close>, the latest revision (input validation, the feed capped
    with \<^verbatim>\<open>LIMIT 50\<close>); a handler that differs there carries the suffix \<open>_latest\<close>.

  Lines 1 to 298 of \<^verbatim>\<open>src/server.js\<close> hold an older and shorter revision of some of the
  same routes; it is not modelled.

  Every route handler is a function from the server state (the tables and the session
  store) and the request to a response and the new state. A handler that only reads
  (a GET with no \<^verbatim>\<open>db.run\<close> and no write to \<^verbatim>\<open>req.session\<close>) returns the response alone.
  What the handlers get from outside the process is a parameter: the clock behind
  \<^verbatim>\<open>CURRENT_TIMESTAMP\<close>, the two bcrypt functions and
  \<^verbatim>\<open>String.prototype.toLowerCase\<close> of the runtime (record \<open>env\<close>). A string is the
  list of its bytes.

  A statement of the driver fails in the model in the two ways the schema can make it
  fail: its table is not in the database file (part_000 creates only \<^verbatim>\<open>users\<close> and
  \<^verbatim>\<open>posts\<close>, the other tables are optional in the state), or a \<^verbatim>\<open>UNIQUE\<close> constraint
  is violated. Foreign keys are not enforced (the code never switches the pragma on).
  Input and output failures of the driver are not modelled.
\<close>

subsection \<open>JavaScript values of a request\<close>

text \<open>
  A field of \<^verbatim>\<open>req.body\<close> is absent, a string (a form field) or a boolean (a JSON body).
  JSON numbers, null, arrays and objects are not modelled.
\<close>

datatype jsval = Undefined | JBool bool | JStr string

fun truthy :: "jsval \<Rightarrow> bool" where
  "truthy Undefined = False"
| "truthy (JBool b) = b"
| "truthy (JStr s) = (s \<noteq> [])"

text \<open>
  A value bound to a \<^verbatim>\<open>?\<close> of a statement on a TEXT column: \<^verbatim>\<open>undefined\<close> binds
  NULL, a boolean binds the integer 1 or 0, which TEXT affinity turns into text.
\<close>

fun bind_text :: "jsval \<Rightarrow> string option" where
  "bind_text Undefined = None"
| "bind_text (JBool b) = Some (if b then ''1'' else ''0'')"
| "bind_text (JStr s) = Some s"

text \<open>SQL equality: a comparison with NULL is never true.\<close>

fun sql_eq :: "'a option \<Rightarrow> 'a option \<Rightarrow> bool" where
  "sql_eq (Some a) (Some b) = (a = b)"
| "sql_eq _ _ = False"

subsection \<open>Tables, sessions, the server state\<close>

text \<open>
  A row is a record of its columns; a nullable column that the code can leave NULL is an
  option. \<^verbatim>\<open>created_at\<close> is the \<^verbatim>\<open>CURRENT_TIMESTAMP\<close> text, whose order is the order of
  time: the model keeps the clock's count of seconds. Row ids are natural numbers (the
  63-bit limit of a rowid is not modelled).
\<close>

record user =
  u_id :: nat
  u_username :: string
  u_password :: string
  u_name :: "string option"
  u_profile_image :: string
  u_bio :: "string option"
  u_is_admin :: nat
  u_is_blocked :: nat
  u_created_at :: nat

record post =
  p_id :: nat
  p_user_id :: "nat option"
  p_content :: "string option"
  p_image :: "string option"
  p_video :: "string option"
  p_audio :: "string option"
  p_privacy :: "string option"
  p_created_at :: nat

record like =
  l_id :: nat
  l_post_id :: nat
  l_user_id :: "nat option"
  l_created_at :: nat

record comment =
  c_id :: nat
  c_post_id :: nat
  c_user_id :: "nat option"
  c_content :: "string option"
  c_created_at :: nat

record chat =
  ch_id :: nat
  ch_user1_id :: "nat option"
  ch_user2_id :: "nat option"
  ch_created_at :: nat

record message =
  m_id :: nat
  m_chat_id :: nat
  m_sender_id :: "nat option"
  m_content :: "string option"
  m_message_type :: string
  m_file_url :: "string option"
  m_created_at :: nat

text \<open>
  \<^verbatim>\<open>req.session\<close>: the three fields the login route writes; a field never written is
  \<^verbatim>\<open>undefined\<close>.
\<close>

record session =
  userId :: "nat option"
  username :: "string option"
  isAdmin :: "bool option"

definition empty_session :: session where
  "empty_session = \<lparr>userId = None, username = None, isAdmin = None\<rparr>"

type_synonym sid = nat

text \<open>
  The state of the process: the tables, the \<^verbatim>\<open>sqlite_sequence\<close> table behind
  \<^verbatim>\<open>AUTOINCREMENT\<close> (the largest rowid a table has ever held), and the session store,
  keyed by the session cookie.
\<close>

record server =
  users :: "user list"
  posts :: "post list"
  likes :: "like list option"
  comments :: "comment list option"
  chats :: "chat list option"
  messages :: "message list option"
  sqlite_sequence :: "string \<Rightarrow> nat"
  sessions :: "sid \<Rightarrow> session"

text \<open>
  What a handler takes from outside: the time of the call, the hash that \<^verbatim>\<open>bcrypt.hash\<close>
  returns for a password in this call (the salt is its own), \<^verbatim>\<open>bcrypt.compare\<close>, and
  \<^verbatim>\<open>toLowerCase\<close>, the lowering of every cased letter that the runtime implements.
  No theorem fixes any of them.
\<close>

record env =
  now :: nat
  bcrypt_hash :: "string \<Rightarrow> string"
  bcrypt_compare :: "string \<Rightarrow> string \<Rightarrow> bool"
  toLowerCase :: "string \<Rightarrow> string"

text \<open>
  A request: the session cookie, what \<^verbatim>\<open>requireLogin\<close> reads of the headers, the body,
  the route parameters (\<^verbatim>\<open>:id\<close> as the integer that INTEGER affinity makes of its
  text, \<^verbatim>\<open>:username\<close> as text) and what multer left: \<^verbatim>\<open>req.file\<close> for
  \<^verbatim>\<open>upload.single\<close> and \<^verbatim>\<open>req.files\<close> for \<^verbatim>\<open>upload.fields\<close>, each file by its stored
  name. multer sets \<^verbatim>\<open>req.files\<close> only for a multipart request. The request is one that
  the body parsers and multer have passed on to the route: an upload that multer refuses
  (a file in a field the route does not list, a file over the size limit) is answered by
  the error handler and reaches none of the functions below.
\<close>

record request =
  sid :: sid
  xhr :: bool
  accept :: "string option"
  body :: "string \<Rightarrow> jsval"
  params_id :: nat
  params_username :: string
  req_file :: "string option"
  req_files :: "(string \<Rightarrow> string option) option"

text \<open>
  The rows of the three SELECT statements that return \<^verbatim>\<open>p.*\<close>, \<^verbatim>\<open>u.*\<close> or \<^verbatim>\<open>*\<close>:
  the whole row of the table, with the computed columns beside it.
\<close>

record feed_row =
  fr_post :: post
  fr_username :: string
  fr_profile_image :: string
  fr_like_count :: nat
  fr_comment_count :: nat
  fr_user_liked :: bool

record profile_row =
  pr_user :: user
  pr_post_count :: nat
  pr_like_count :: nat

record admin_user_row =
  au_user :: user
  au_post_count :: nat

text \<open>
  A response: a redirect, a body sent with a status, a page that is one script (an
  alert, then a new location), or one of the JSON payloads of the routes.
\<close>

datatype response =
    Redirect string
  | Send nat string
  | Script string string
  | JsonError nat string
  | JsonLiked bool
  | JsonSuccess
  | JsonMessageId nat
  | JsonPosts "feed_row list"
  | JsonProfile profile_row
  | JsonAdminUsers "admin_user_row list"

definition server_error :: response where
  "server_error = Send 500 ''Server error''"

subsection \<open>AUTOINCREMENT\<close>

text \<open>
  The rowid of a new row is one more than the largest rowid the table has ever held:
  the larger of its \<^verbatim>\<open>sqlite_sequence\<close> entry and the ids now in the table.
\<close>

definition next_rowid :: "server \<Rightarrow> string \<Rightarrow> nat list \<Rightarrow> nat" where
  "next_rowid srv table ids = Suc (fold max ids (sqlite_sequence srv table))"

subsection \<open>The guards\<close>

fun includes_str :: "string \<Rightarrow> string \<Rightarrow> bool" where
  "includes_str pat [] = (pat = [])"
| "includes_str pat (c # cs) = (take (length pat) (c # cs) = pat \<or> includes_str pat cs)"

definition session_of :: "server \<Rightarrow> request \<Rightarrow> session" where
  "session_of srv req = sessions srv (sid req)"

text \<open>\<^verbatim>\<open>!req.session.userId\<close>: true for \<^verbatim>\<open>undefined\<close> and for 0.\<close>

definition no_userId :: "session \<Rightarrow> bool" where
  "no_userId s = (case userId s of None \<Rightarrow> True | Some n \<Rightarrow> n = 0)"

text \<open>
  A guard answers the request itself (\<open>Some\<close> response) or calls \<^verbatim>\<open>next()\<close> (\<open>None\<close>).
  \<^verbatim>\<open>req.headers.accept.indexOf\<close> throws when the request has no Accept header; the
  error handler of the application answers 500.
\<close>

definition requireLogin :: "server \<Rightarrow> request \<Rightarrow> response option" where
  "requireLogin srv req =
     (if no_userId (session_of srv req) then
        (if xhr req then Some (JsonError 401 ''Authentication required'')
         else case accept req of
           None \<Rightarrow> Some server_error
         | Some a \<Rightarrow>
             if includes_str ''json'' a then Some (JsonError 401 ''Authentication required'')
             else Some (Redirect ''/login.html''))
      else None)"

definition requireAdmin :: "server \<Rightarrow> request \<Rightarrow> response option" where
  "requireAdmin srv req =
     (if no_userId (session_of srv req) \<or> isAdmin (session_of srv req) \<noteq> Some True
      then Some (Send 403 ''Admin access required'')
      else None)"

subsection \<open>POST /api/posts/:id/like\<close>

definition like_matches :: "nat \<Rightarrow> nat option \<Rightarrow> like \<Rightarrow> bool" where
  "like_matches postId uid l = (l_post_id l = postId \<and> sql_eq (l_user_id l) uid)"

definition like_post :: "env \<Rightarrow> server \<Rightarrow> request \<Rightarrow> response \<times> server" where
  "like_post e srv req =
     (case requireLogin srv req of
        Some r \<Rightarrow> (r, srv)
      | None \<Rightarrow>
          let postId = params_id req; uid = userId (session_of srv req) in
          (case likes srv of
             None \<Rightarrow> (JsonError 500 ''Database error'', srv)
           | Some ls \<Rightarrow>
               (case find (like_matches postId uid) ls of
                  Some l \<Rightarrow>
                    (JsonLiked False,
                     srv\<lparr>likes := Some (filter (\<lambda>l. \<not> like_matches postId uid l) ls)\<rparr>)
                | None \<Rightarrow>
                    let i = next_rowid srv ''likes'' (map l_id ls) in
                    (JsonLiked True,
                     srv\<lparr>likes := Some (ls @ [\<lparr>l_id = i, l_post_id = postId, l_user_id = uid,
                                                 l_created_at = now e\<rparr>]),
                         sqlite_sequence := (sqlite_sequence srv)(''likes'' := i)\<rparr>))))"

subsection \<open>POST /register\<close>

text \<open>
  The body of the \<^verbatim>\<open>try\<close> block, the same text in both revisions. \<^verbatim>\<open>bcrypt.hash\<close>
  rejects a password that is not a string and \<^verbatim>\<open>username.toLowerCase()\<close> throws on a
  value that is not a string; the \<^verbatim>\<open>catch\<close> answers 500. The INSERT violates the
  \<^verbatim>\<open>UNIQUE\<close> constraint when a row already has the username.
\<close>

definition register :: "env \<Rightarrow> server \<Rightarrow> request \<Rightarrow> response \<times> server" where
  "register e srv req =
     (case body req ''password'' of
        JStr pw \<Rightarrow>
          (case body req ''username'' of
             JStr un \<Rightarrow>
               if toLowerCase e un \<in> u_username ` set (users srv)
               then (Send 200 ''Username hore u jiray'', srv)
               else
                 let i = next_rowid srv ''users'' (map u_id (users srv)) in
                 (Redirect ''/login.html'',
                  srv\<lparr>users := users srv @
                        [\<lparr>u_id = i, u_username = toLowerCase e un,
                          u_password = bcrypt_hash e pw,
                          u_name = bind_text (body req ''name''),
                          u_profile_image =
                            (case req_file req of
                               Some f \<Rightarrow> ''uploads/'' @ f
                             | None \<Rightarrow> ''images/default-profile.png''),
                          u_bio = None, u_is_admin = 0, u_is_blocked = 0,
                          u_created_at = now e\<rparr>],
                      sqlite_sequence := (sqlite_sequence srv)(''users'' := i)\<rparr>)
           | _ \<Rightarrow> (server_error, srv))
      | _ \<Rightarrow> (server_error, srv))"

definition register_latest :: "env \<Rightarrow> server \<Rightarrow> request \<Rightarrow> response \<times> server" where
  "register_latest e srv req =
     (if \<not> truthy (body req ''username'') \<or> \<not> truthy (body req ''password'')
         \<or> \<not> truthy (body req ''name'')
      then (Send 400 ''Fadlan buuxi dhammaan fields-ka'', srv)
      else register e srv req)"

subsection \<open>POST /login\<close>

text \<open>
  \<^verbatim>\<open>username.toLowerCase()\<close> is outside the \<^verbatim>\<open>try\<close>: what it throws reaches the error
  handler of the application, which answers 500 as the \<^verbatim>\<open>catch\<close> does.
\<close>

definition login :: "env \<Rightarrow> server \<Rightarrow> request \<Rightarrow> response \<times> server" where
  "login e srv req =
     (case body req ''username'' of
        JStr un \<Rightarrow>
          (case find (\<lambda>u. u_username u = toLowerCase e un \<and> u_is_blocked u = 0)
                  (users srv) of
             None \<Rightarrow> (Send 200 ''Username ama password khalad'', srv)
           | Some user \<Rightarrow>
               (case body req ''password'' of
                  JStr pw \<Rightarrow>
                    if \<not> bcrypt_compare e pw (u_password user)
                    then (Send 200 ''Username ama password khalad'', srv)
                    else
                      (Redirect ''/'',
                       srv\<lparr>sessions := (sessions srv)
                             (sid req := (session_of srv req)
                                \<lparr>userId := Some (u_id user),
                                 username := Some (u_username user),
                                 isAdmin := Some (u_is_admin user = 1)\<rparr>)\<rparr>)
                | _ \<Rightarrow> (server_error, srv)))
      | _ \<Rightarrow> (server_error, srv))"

definition login_latest :: "env \<Rightarrow> server \<Rightarrow> request \<Rightarrow> response \<times> server" where
  "login_latest e srv req =
     (if \<not> truthy (body req ''username'') \<or> \<not> truthy (body req ''password'')
      then (Send 400 ''Fadlan geli username iyo password'', srv)
      else login e srv req)"

subsection \<open>GET /api/posts\<close>

text \<open>The WHERE clause: \<^verbatim>\<open>p.privacy = 'public' OR p.user_id = ?\<close>.\<close>

definition visible_to :: "nat option \<Rightarrow> post \<Rightarrow> bool" where
  "visible_to uid p = (p_privacy p = Some ''public'' \<or> sql_eq (p_user_id p) uid)"

text \<open>
  The rows of \<^verbatim>\<open>posts p JOIN users u ON p.user_id = u.id\<close> that pass the WHERE clause,
  each with its three subqueries on \<^verbatim>\<open>likes\<close> and \<^verbatim>\<open>comments\<close>.
\<close>

definition feed_rows :: "server \<Rightarrow> like list \<Rightarrow> comment list \<Rightarrow> nat option \<Rightarrow> feed_row list" where
  "feed_rows srv ls cs uid =
     [\<lparr>fr_post = p, fr_username = u_username u, fr_profile_image = u_profile_image u,
       fr_like_count = length (filter (\<lambda>l. l_post_id l = p_id p) ls),
       fr_comment_count = length (filter (\<lambda>c. c_post_id c = p_id p) cs),
       fr_user_liked = list_ex (\<lambda>l. l_post_id l = p_id p \<and> sql_eq (l_user_id l) uid) ls\<rparr>.
      p \<leftarrow> posts srv, u \<leftarrow> users srv,
      sql_eq (p_user_id p) (Some (u_id u)) \<and> visible_to uid p]"

text \<open>
  \<^verbatim>\<open>ORDER BY p.created_at DESC\<close>. SQL leaves the order of rows with equal keys open;
  the model keeps them in the order of the join.
\<close>

definition newest_first :: "feed_row list \<Rightarrow> feed_row list" where
  "newest_first rows = sort_key (\<lambda>r. - int (p_created_at (fr_post r))) rows"

definition get_posts :: "server \<Rightarrow> request \<Rightarrow> response" where
  "get_posts srv req =
     (case requireLogin srv req of
        Some r \<Rightarrow> r
      | None \<Rightarrow>
          let uid = userId (session_of srv req) in
          (case likes srv of
             None \<Rightarrow> JsonError 500 ''Database error''
           | Some ls \<Rightarrow>
               (case comments srv of
                  None \<Rightarrow> JsonError 500 ''Database error''
                | Some cs \<Rightarrow> JsonPosts (newest_first (feed_rows srv ls cs uid)))))"

definition get_posts_latest :: "server \<Rightarrow> request \<Rightarrow> response" where
  "get_posts_latest srv req =
     (case requireLogin srv req of
        Some r \<Rightarrow> r
      | None \<Rightarrow>
          let uid = userId (session_of srv req) in
          (case likes srv of
             None \<Rightarrow> JsonError 500 ''Database error''
           | Some ls \<Rightarrow>
               (case comments srv of
                  None \<Rightarrow> JsonError 500 ''Database error''
                | Some cs \<Rightarrow> JsonPosts (take 50 (newest_first (feed_rows srv ls cs uid))))))"

subsection \<open>POST /create-post\<close>

text \<open>\<^verbatim>\<open>req.files?.image ? 'uploads/' + req.files.image[0].filename : null\<close>\<close>

definition upload_path :: "(string \<Rightarrow> string option) option \<Rightarrow> string \<Rightarrow> string option" where
  "upload_path fs field =
     (case fs of
        None \<Rightarrow> None
      | Some f \<Rightarrow> (case f field of None \<Rightarrow> None | Some n \<Rightarrow> Some (''uploads/'' @ n)))"

definition insert_post :: "env \<Rightarrow> server \<Rightarrow> request \<Rightarrow> jsval \<Rightarrow> jsval \<Rightarrow> server" where
  "insert_post e srv req content privacy =
     (let i = next_rowid srv ''posts'' (map p_id (posts srv)) in
      srv\<lparr>posts := posts srv @
            [\<lparr>p_id = i, p_user_id = userId (session_of srv req),
              p_content = bind_text content,
              p_image = upload_path (req_files req) ''image'',
              p_video = upload_path (req_files req) ''video'',
              p_audio = upload_path (req_files req) ''audio'',
              p_privacy = bind_text privacy,
              p_created_at = now e\<rparr>],
          sqlite_sequence := (sqlite_sequence srv)(''posts'' := i)\<rparr>)"

definition create_post :: "env \<Rightarrow> server \<Rightarrow> request \<Rightarrow> response \<times> server" where
  "create_post e srv req =
     (case requireLogin srv req of
        Some r \<Rightarrow> (r, srv)
      | None \<Rightarrow>
          (Redirect ''/'', insert_post e srv req (body req ''content'') (body req ''privacy'')))"

text \<open>
  The latest revision: \<^verbatim>\<open>privacy = 'public'\<close> in the destructuring applies when the
  field is \<^verbatim>\<open>undefined\<close>, and the route reads \<^verbatim>\<open>req.files.image\<close> with no \<^verbatim>\<open>?.\<close>, which
  throws when the request was not multipart: with no content the validation reads it,
  with content the next statement does.
\<close>

definition create_post_latest :: "env \<Rightarrow> server \<Rightarrow> request \<Rightarrow> response \<times> server" where
  "create_post_latest e srv req =
     (case requireLogin srv req of
        Some r \<Rightarrow> (r, srv)
      | None \<Rightarrow>
          let content = body req ''content'';
              privacy = (case body req ''privacy'' of Undefined \<Rightarrow> JStr ''public'' | v \<Rightarrow> v)
          in
          (case req_files req of
             None \<Rightarrow> (server_error, srv)
           | Some f \<Rightarrow>
               if \<not> truthy content \<and> f ''image'' = None \<and> f ''video'' = None
                  \<and> f ''audio'' = None
               then (Send 400 ''Fadlan geli content ama dooro file'', srv)
               else (Redirect ''/'', insert_post e srv req content privacy)))"

subsection \<open>POST /api/chats/:id/messages\<close>

definition chat_of :: "nat \<Rightarrow> nat option \<Rightarrow> chat \<Rightarrow> bool" where
  "chat_of chatId uid c =
     (ch_id c = chatId \<and> (sql_eq (ch_user1_id c) uid \<or> sql_eq (ch_user2_id c) uid))"

definition send_message :: "env \<Rightarrow> server \<Rightarrow> request \<Rightarrow> response \<times> server" where
  "send_message e srv req =
     (case requireLogin srv req of
        Some r \<Rightarrow> (r, srv)
      | None \<Rightarrow>
          let chatId = params_id req; uid = userId (session_of srv req) in
          (case chats srv of
             None \<Rightarrow> (JsonError 403 ''Access denied'', srv)
           | Some cs \<Rightarrow>
               (case find (chat_of chatId uid) cs of
                  None \<Rightarrow> (JsonError 403 ''Access denied'', srv)
                | Some c \<Rightarrow>
                    (case messages srv of
                       None \<Rightarrow> (JsonError 500 ''Database error'', srv)
                     | Some ms \<Rightarrow>
                         let i = next_rowid srv ''messages'' (map m_id ms) in
                         (JsonMessageId i,
                          srv\<lparr>messages := Some (ms @
                                [\<lparr>m_id = i, m_chat_id = chatId, m_sender_id = uid,
                                  m_content = bind_text (body req ''content''),
                                  m_message_type =
                                    (case req_file req of Some f \<Rightarrow> ''file''
                                     | None \<Rightarrow> ''text''),
                                  m_file_url =
                                    (case req_file req of Some f \<Rightarrow> Some (''uploads/'' @ f)
                                     | None \<Rightarrow> None),
                                  m_created_at = now e\<rparr>]),
                              sqlite_sequence := (sqlite_sequence srv)(''messages'' := i)\<rparr>)))))"

subsection \<open>The profile and admin routes\<close>

definition post_count :: "server \<Rightarrow> user \<Rightarrow> nat" where
  "post_count srv u = length (filter (\<lambda>p. sql_eq (p_user_id p) (Some (u_id u))) (posts srv))"

definition get_profile :: "server \<Rightarrow> request \<Rightarrow> response" where
  "get_profile srv req =
     (case requireLogin srv req of
        Some r \<Rightarrow> r
      | None \<Rightarrow>
          (case likes srv of
             None \<Rightarrow> JsonError 500 ''Database error''
           | Some ls \<Rightarrow>
               (case find (\<lambda>u. u_username u = params_username req) (users srv) of
                  None \<Rightarrow> JsonError 404 ''User not found''
                | Some u \<Rightarrow>
                    JsonProfile
                      \<lparr>pr_user = u, pr_post_count = post_count srv u,
                       pr_like_count =
                         length [(l, p). l \<leftarrow> ls, p \<leftarrow> posts srv,
                                 l_post_id l = p_id p \<and> sql_eq (p_user_id p) (Some (u_id u))]\<rparr>)))"

definition admin_users :: "server \<Rightarrow> request \<Rightarrow> response" where
  "admin_users srv req =
     (case requireAdmin srv req of
        Some r \<Rightarrow> r
      | None \<Rightarrow>
          JsonAdminUsers
            (sort_key (\<lambda>r. - int (u_created_at (au_user r)))
               (map (\<lambda>u. \<lparr>au_user = u, au_post_count = post_count srv u\<rparr>) (users srv))))"

definition admin_block :: "server \<Rightarrow> request \<Rightarrow> response \<times> server" where
  "admin_block srv req =
     (case requireAdmin srv req of
        Some r \<Rightarrow> (r, srv)
      | None \<Rightarrow>
          (JsonSuccess,
           srv\<lparr>users :=
                 map (\<lambda>u. if u_id u = params_id req
                           then u\<lparr>u_is_blocked := (if truthy (body req ''blocked'') then 1 else 0)\<rparr>
                           else u)
                   (users srv)\<rparr>))"

text \<open>\<^verbatim>\<open>DELETE FROM users WHERE id = ?\<close>: the rows of the other tables stay.\<close>

definition delete_user :: "server \<Rightarrow> request \<Rightarrow> response \<times> server" where
  "delete_user srv req =
     (case requireAdmin srv req of
        Some r \<Rightarrow> (r, srv)
      | None \<Rightarrow>
          (JsonSuccess, srv\<lparr>users := filter (\<lambda>u. u_id u \<noteq> params_id req) (users srv)\<rparr>))"

subsection \<open>The password routes\<close>

text \<open>
  A template literal turns an interpolated value into text. The forget-password route is
  a placeholder: it reads the username, writes nothing and sends the browser to the
  reset page, with the username in the address and no token.
\<close>

fun js_string :: "jsval \<Rightarrow> string" where
  "js_string Undefined = ''undefined''"
| "js_string (JBool b) = (if b then ''true'' else ''false'')"
| "js_string (JStr s) = s"

definition forget_password :: "server \<Rightarrow> request \<Rightarrow> response" where
  "forget_password srv req =
     Script ''Fariin reset password ayaa la ku diray email-kaaga''
       (''/reset-password.html?username='' @ js_string (body req ''username''))"

definition reset_password :: "env \<Rightarrow> server \<Rightarrow> request \<Rightarrow> response \<times> server" where
  "reset_password e srv req =
     (case body req ''newPassword'' of
        JStr pw \<Rightarrow>
          (Script ''Password-kaaga si guul leh ayaa loo beddelay!'' ''/login.html'',
           srv\<lparr>users :=
                 map (\<lambda>u. if sql_eq (Some (u_username u)) (bind_text (body req ''username''))
                           then u\<lparr>u_password := bcrypt_hash e pw\<rparr>
                           else u)
                   (users srv)\<rparr>)
      | _ \<Rightarrow> (server_error, srv))"

subsection \<open>The start of the process\<close>

text \<open>
  \<^verbatim>\<open>db.serialize\<close> at the top of the file: the \<^verbatim>\<open>CREATE TABLE IF NOT EXISTS\<close>
  statements, then the default administrator when \<^verbatim>\<open>users\<close> is empty. The session
  store of a new process is empty. server.js creates every table; part_000 announces
  \<^verbatim>\<open>// Create all tables\<close> and creates \<^verbatim>\<open>users\<close> and \<^verbatim>\<open>posts\<close> only, so the other tables
  are in its database only when the file already had them. \<open>new_file\<close> is the database
  file that \<^verbatim>\<open>new sqlite3.Database\<close> has just created.
\<close>

definition new_file :: server where
  "new_file = \<lparr>users = [], posts = [], likes = None, comments = None, chats = None,
               messages = None, sqlite_sequence = (\<lambda>t. 0), sessions = (\<lambda>k. empty_session)\<rparr>"

definition create_if_not_exists :: "'a list option \<Rightarrow> 'a list option" where
  "create_if_not_exists t = (case t of None \<Rightarrow> Some [] | Some rows \<Rightarrow> Some rows)"

definition create_default_admin :: "env \<Rightarrow> server \<Rightarrow> server" where
  "create_default_admin e srv =
     (if length (users srv) = 0 then
        let i = next_rowid srv ''users'' (map u_id (users srv)) in
        srv\<lparr>users := users srv @
              [\<lparr>u_id = i, u_username = ''admin'', u_password = bcrypt_hash e ''admin123'',
                u_name = Some ''Admin User'', u_profile_image = ''images/default-profile.png'',
                u_bio = None, u_is_admin = 1, u_is_blocked = 0, u_created_at = now e\<rparr>],
            sqlite_sequence := (sqlite_sequence srv)(''users'' := i)\<rparr>
      else srv)"

definition startup :: "env \<Rightarrow> server \<Rightarrow> server" where
  "startup e srv =
     create_default_admin e
       (srv\<lparr>likes := create_if_not_exists (likes srv),
            comments := create_if_not_exists (comments srv),
            chats := create_if_not_exists (chats srv),
            messages := create_if_not_exists (messages srv),
            sessions := (\<lambda>k. empty_session)\<rparr>)"

definition startup_latest :: "env \<Rightarrow> server \<Rightarrow> server" where
  "startup_latest e srv = create_default_admin e (srv\<lparr>sessions := (\<lambda>k. empty_session)\<rparr>)"

subsection \<open>A small database for the worked examples\<close>

text \<open>
  Three users (the administrator, amina, and user 7), three posts (one public, one
  private, one of user 7 with a NULL privacy), and three sessions: cookie 1 is amina's,
  cookie 2 the administrator's, cookie 3 is the one user 7 logged in with.

  The environment of the examples: the stand-in for bcrypt prefixes the password, and
  the stand-in for \<^verbatim>\<open>toLowerCase\<close> lowers, in UTF-8 text, the letters A to Z and the
  capital letters of Latin-1 (U+00C0 to U+00DE without the multiplication sign, whose
  bytes are C3 80 to C3 9E), as the runtime does for them.
\<close>

definition lower_ascii :: "char \<Rightarrow> char" where
  "lower_ascii c =
     (case map_of (zip ''ABCDEFGHIJKLMNOPQRSTUVWXYZ'' ''abcdefghijklmnopqrstuvwxyz'') c of
        Some l \<Rightarrow> l
      | None \<Rightarrow> c)"

fun lower_latin1 :: "char \<Rightarrow> char" where
  "lower_latin1 (Char b0 b1 b2 b3 b4 b5 b6 b7) =
     (if b7 \<and> \<not> b6 \<and> \<not> b5 \<and> \<not> (b0 \<and> b1 \<and> b2 \<and> b4)
      then Char b0 b1 b2 b3 b4 True b6 b7
      else Char b0 b1 b2 b3 b4 b5 b6 b7)"

fun lower_utf8 :: "string \<Rightarrow> string" where
  "lower_utf8 (c # d # cs) =
     (if c = CHR 0xC3 then c # lower_latin1 d # lower_utf8 cs
      else lower_ascii c # lower_utf8 (d # cs))"
| "lower_utf8 [c] = [lower_ascii c]"
| "lower_utf8 [] = []"

definition env0 :: env where
  "env0 = \<lparr>now = 100, bcrypt_hash = (\<lambda>p. ''$2a$10$'' @ p),
           bcrypt_compare = (\<lambda>p h. h = ''$2a$10$'' @ p), toLowerCase = lower_utf8\<rparr>"

definition demo_users :: "user list" where
  "demo_users =
     [\<lparr>u_id = 1, u_username = ''admin'', u_password = ''$2a$10$admin123'',
       u_name = Some ''Admin User'', u_profile_image = ''images/default-profile.png'',
       u_bio = None, u_is_admin = 1, u_is_blocked = 0, u_created_at = 0\<rparr>,
      \<lparr>u_id = 2, u_username = ''amina'', u_password = ''$2a$10$pass1234'',
       u_name = Some ''Amina A'', u_profile_image = ''images/default-profile.png'',
       u_bio = None, u_is_admin = 0, u_is_blocked = 0, u_created_at = 10\<rparr>,
      \<lparr>u_id = 7, u_username = ''cali'', u_password = ''$2a$10$sir'',
       u_name = Some ''Cali C'', u_profile_image = ''uploads/1-cali.png'',
       u_bio = Some ''bio'', u_is_admin = 0, u_is_blocked = 0, u_created_at = 20\<rparr>]"

definition demo_posts :: "post list" where
  "demo_posts =
     [\<lparr>p_id = 1, p_user_id = Some 2, p_content = Some ''Salaan'', p_image = None,
       p_video = None, p_audio = None, p_privacy = Some ''public'', p_created_at = 30\<rparr>,
      \<lparr>p_id = 2, p_user_id = Some 2, p_content = Some ''qarsoodi'', p_image = None,
       p_video = None, p_audio = None, p_privacy = Some ''private'', p_created_at = 40\<rparr>,
      \<lparr>p_id = 3, p_user_id = Some 7, p_content = None, p_image = Some ''uploads/2-a.png'',
       p_video = None, p_audio = None, p_privacy = None, p_created_at = 50\<rparr>]"

definition demo_likes :: "like list" where
  "demo_likes =
     [\<lparr>l_id = 1, l_post_id = 1, l_user_id = Some 7, l_created_at = 60\<rparr>,
      \<lparr>l_id = 2, l_post_id = 2, l_user_id = Some 2, l_created_at = 70\<rparr>]"

definition demo_chats :: "chat list" where
  "demo_chats =
     [\<lparr>ch_id = 1, ch_user1_id = Some 1, ch_user2_id = Some 7, ch_created_at = 80\<rparr>]"

definition demo_sessions :: "sid \<Rightarrow> session" where
  "demo_sessions =
     (\<lambda>k. empty_session)
       (1 := \<lparr>userId = Some 2, username = Some ''amina'', isAdmin = Some False\<rparr>,
        2 := \<lparr>userId = Some 1, username = Some ''admin'', isAdmin = Some True\<rparr>,
        3 := \<lparr>userId = Some 7, username = Some ''cali'', isAdmin = Some False\<rparr>)"

definition demo :: server where
  "demo = \<lparr>users = demo_users, posts = demo_posts, likes = Some demo_likes,
           comments = Some [\<lparr>c_id = 1, c_post_id = 1, c_user_id = Some 1,
                             c_content = Some ''haye'', c_created_at = 65\<rparr>],
           chats = Some demo_chats, messages = Some [],
           sqlite_sequence = (\<lambda>t. 0)(''users'' := 7, ''posts'' := 3, ''likes'' := 2,
                                       ''comments'' := 1, ''chats'' := 1),
           sessions = demo_sessions\<rparr>"

text \<open>A request of the browser with cookie \<open>k\<close> on the route parameter \<open>i\<close>.\<close>

definition request_of :: "sid \<Rightarrow> nat \<Rightarrow> request" where
  "request_of k i =
     \<lparr>sid = k, xhr = False, accept = Some ''application/json'', body = (\<lambda>f. Undefined),
      params_id = i, params_username = [], req_file = None, req_files = None\<rparr>"

text \<open>A registration form sent by a browser that has no session yet (cookie 9).\<close>

definition register_request :: "string \<Rightarrow> string \<Rightarrow> string \<Rightarrow> request" where
  "register_request un pw nm =
     (request_of 9 0)\<lparr>body := (\<lambda>f. Undefined)(''username'' := JStr un, ''password'' := JStr pw,
                                                  ''name'' := JStr nm)\<rparr>"

text \<open>
  The administrator (cookie 2) blocks the user with id \<open>i\<close>; a login form from a browser
  with no session yet.
\<close>

definition block_request :: "nat \<Rightarrow> request" where
  "block_request i = (request_of 2 i)\<lparr>body := (\<lambda>f. Undefined)(''blocked'' := JBool True)\<rparr>"

definition login_request :: "string \<Rightarrow> string \<Rightarrow> request" where
  "login_request un pw =
     (request_of 9 0)\<lparr>body := (\<lambda>f. Undefined)(''username'' := JStr un, ''password'' := JStr pw)\<rparr>"

text \<open>The reset form, from a browser that never logged in.\<close>

definition reset_request :: "string \<Rightarrow> string \<Rightarrow> request" where
  "reset_request un pw =
     (request_of 9 0)\<lparr>body := (\<lambda>f. Undefined)(''username'' := JStr un, ''newPassword'' := JStr pw)\<rparr>"

text \<open>The posts that a response shows: those of a feed, none for any other answer.\<close>

fun posts_of :: "response \<Rightarrow> post list" where
  "posts_of (JsonPosts rows) = map fr_post rows"
| "posts_of _ = []"

text \<open>
  The same database after the administrator has written fifty public posts, at the
  times 100 to 149.
\<close>

definition busy :: server where
  "busy = demo\<lparr>posts := demo_posts @
            map (\<lambda>i. \<lparr>p_id = i, p_user_id = Some 1, p_content = Some ''war'', p_image = None,
                       p_video = None, p_audio = None, p_privacy = Some ''public'',
                       p_created_at = i\<rparr>)
              [100..<150]\<rparr>"

text \<open>
  amina submits the create-post form (multipart) with the text fields \<open>b\<close> and no file.
\<close>

definition post_request :: "(string \<Rightarrow> jsval) \<Rightarrow> request" where
  "post_request b = (request_of 1 0)\<lparr>body := b, req_files := Some (\<lambda>f. None)\<rparr>"

text \<open>
  The database of the latest revision: part_000 starts on a new file, \<open>hodan\<close>
  registers and logs in (cookie 9).
\<close>

definition latest_db :: server where
  "latest_db =
     snd (login_latest env0
            (snd (register_latest env0 (startup_latest env0 new_file)
                    (register_request ''hodan'' ''pass1234'' ''Hodan H'')))
            (login_request ''hodan'' ''pass1234''))"

text \<open>The same database after the administrator has deleted amina (user 2).\<close>

definition orphaned :: server where
  "orphaned = snd (delete_user demo (request_of 2 2))"

section \<open>Properties\<close>

subsection \<open>Shared facts\<close>

lemma find_None_iff_all: "find P xs = None \<longleftrightarrow> (\<forall>x\<in>set xs. \<not> P x)"
  by (induction xs) auto

lemma requireLogin_pass:
  "userId (sessions srv (sid req)) = Some uid \<Longrightarrow> uid \<noteq> 0 \<Longrightarrow> requireLogin srv req = None"
  by (simp add: requireLogin_def no_userId_def session_of_def)

lemma distinct_map_eq:
  "distinct (map f xs) \<Longrightarrow> x \<in> set xs \<Longrightarrow> y \<in> set xs \<Longrightarrow> f x = f y \<Longrightarrow> x = y"
  by (meson distinct_map inj_on_def)

subsection \<open>The tables that the latest revision never creates\<close>

lemma startup_creates_tables:
  "likes (startup e srv) \<noteq> None" "comments (startup e srv) \<noteq> None"
  "chats (startup e srv) \<noteq> None" "messages (startup e srv) \<noteq> None"
  by (simp_all add: startup_def create_default_admin_def create_if_not_exists_def Let_def
      split: option.splits)

lemma startup_latest_tables:
  "likes (startup_latest e srv) = likes srv" "comments (startup_latest e srv) = comments srv"
  by (simp_all add: startup_latest_def create_default_admin_def Let_def)

lemma latest_routes_keep_tables:
  "likes (snd (register_latest e srv req)) = likes srv"
  "comments (snd (register_latest e srv req)) = comments srv"
  "likes (snd (login_latest e srv req)) = likes srv"
  "comments (snd (login_latest e srv req)) = comments srv"
  "likes (snd (create_post_latest e srv req)) = likes srv"
  "comments (snd (create_post_latest e srv req)) = comments srv"
  "comments (snd (like_post e srv req)) = comments srv"
  by (simp_all add: register_latest_def register_def login_latest_def login_def
      create_post_latest_def insert_post_def like_post_def Let_def
      split: jsval.splits option.splits)

lemma like_post_no_table:
  assumes "userId (sessions srv (sid req)) = Some uid" "uid \<noteq> 0" "likes srv = None"
  shows "like_post e srv req = (JsonError 500 ''Database error'', srv)"
  using assms by (simp add: like_post_def requireLogin_pass Let_def)

lemma get_posts_no_table:
  assumes "userId (sessions srv (sid req)) = Some uid" "uid \<noteq> 0"
    and "likes srv = None \<or> comments srv = None"
  shows "get_posts srv req = JsonError 500 ''Database error''"
    and "get_posts_latest srv req = JsonError 500 ''Database error''"
  using assms
  by (auto simp: get_posts_def get_posts_latest_def requireLogin_pass Let_def
      split: option.splits)

lemma latest_db_facts:
  "userId (sessions latest_db (sid (request_of 9 i))) = Some 2"
  "likes latest_db = None" "comments latest_db = None"
  "map u_username (users latest_db) = [''admin'', ''hodan'']"
  by (simp_all add: latest_db_def login_latest_def login_def register_latest_def register_def
      startup_latest_def create_default_admin_def new_file_def next_rowid_def
      register_request_def login_request_def request_of_def env0_def lower_ascii_def
      session_of_def Let_def)

subsection \<open>The like toggle\<close>

text \<open>
  \<^bold>\<open>C2\<close>, on the database of the latest revision. part_000 is started on a new
  database file; \<open>hodan\<close> registers, logs in and sends the like request for post 1.
  The claim expects \<open>liked: true\<close>. The likes table was never created, the SELECT of the
  route fails, and the answer is 500 with \<open>Database error\<close>; the state is left as it
  was, so the second and the third request are answered the same.
\<close>

theorem like_on_latest_database:
  "requireLogin latest_db (request_of 9 1) = None
   \<and> likes latest_db = None
   \<and> like_post env0 latest_db (request_of 9 1) = (JsonError 500 ''Database error'', latest_db)"
proof -
  have login: "userId (sessions latest_db (sid (request_of 9 1))) = Some 2"
    by (rule latest_db_facts(1))
  have "like_post env0 latest_db (request_of 9 1) = (JsonError 500 ''Database error'', latest_db)"
    using login latest_db_facts(2) by (intro like_post_no_table[where uid = 2]) simp_all
  moreover have "requireLogin latest_db (request_of 9 1) = None"
    using login by (intro requireLogin_pass[where uid = 2]) simp_all
  ultimately show ?thesis
    using latest_db_facts(2) by simp
qed

lemma like_post_unliked:
  assumes "userId (sessions srv (sid req)) = Some uid" "uid \<noteq> 0"
    and "likes srv = Some ls"
    and "\<forall>l\<in>set ls. \<not> like_matches (params_id req) (Some uid) l"
  shows "like_post e srv req =
    (JsonLiked True,
     srv\<lparr>likes := Some (ls @ [\<lparr>l_id = next_rowid srv ''likes'' (map l_id ls),
                                 l_post_id = params_id req, l_user_id = Some uid,
                                 l_created_at = now e\<rparr>]),
         sqlite_sequence :=
           (sqlite_sequence srv)(''likes'' := next_rowid srv ''likes'' (map l_id ls))\<rparr>)"
proof -
  have "find (like_matches (params_id req) (Some uid)) ls = None"
    using assms(4) by (simp add: find_None_iff_all)
  then show ?thesis
    using assms(1-3) by (simp add: like_post_def requireLogin_pass session_of_def Let_def)
qed

lemma like_post_liked:
  assumes "userId (sessions srv (sid req)) = Some uid" "uid \<noteq> 0"
    and "likes srv = Some ls"
    and "\<exists>l\<in>set ls. like_matches (params_id req) (Some uid) l"
  shows "like_post e srv req =
    (JsonLiked False,
     srv\<lparr>likes := Some (filter (\<lambda>l. \<not> like_matches (params_id req) (Some uid) l) ls)\<rparr>)"
proof -
  have "find (like_matches (params_id req) (Some uid)) ls \<noteq> None"
    using assms(4) by (simp add: find_None_iff_all)
  then obtain l where "find (like_matches (params_id req) (Some uid)) ls = Some l"
    by blast
  then show ?thesis
    using assms(1-3) by (simp add: like_post_def requireLogin_pass session_of_def Let_def)
qed

text \<open>
  Where the likes table exists, as in every database that server.js has started on: a
  logged-in user (session \<open>k\<close>, user \<open>uid\<close>) who has no like row for the post \<open>pid\<close> sends
  the like request three times in a row, with no other request between them. The
  answers are \<open>liked: true\<close>, \<open>liked: false\<close>, \<open>liked: true\<close>, and after the second call
  the rows of the likes table are those before the first.
\<close>

theorem like_toggle:
  assumes login: "userId (sessions srv k) = Some uid" "uid \<noteq> 0"
    and req: "sid r1 = k" "sid r2 = k" "sid r3 = k"
             "params_id r1 = pid" "params_id r2 = pid" "params_id r3 = pid"
    and tbl: "likes srv = Some ls"
    and unliked: "\<forall>l\<in>set ls. \<not> like_matches pid (Some uid) l"
  shows "fst (like_post e1 srv r1) = JsonLiked True
       \<and> fst (like_post e2 (snd (like_post e1 srv r1)) r2) = JsonLiked False
       \<and> likes (snd (like_post e2 (snd (like_post e1 srv r1)) r2)) = likes srv
       \<and> fst (like_post e3 (snd (like_post e2 (snd (like_post e1 srv r1)) r2)) r3)
           = JsonLiked True"
proof -
  define i where "i = next_rowid srv ''likes'' (map l_id ls)"
  define new where
    "new = \<lparr>l_id = i, l_post_id = pid, l_user_id = Some uid, l_created_at = now e1\<rparr>"
  define s1 where
    "s1 = srv\<lparr>likes := Some (ls @ [new]),
              sqlite_sequence := (sqlite_sequence srv)(''likes'' := i)\<rparr>"
  have m: "like_matches pid (Some uid) new"
    by (simp add: like_matches_def new_def)
  have keep: "filter (\<lambda>l. \<not> like_matches pid (Some uid) l) ls = ls"
    using unliked by (simp add: filter_id_conv)
  have c1: "like_post e1 srv r1 = (JsonLiked True, s1)"
    using like_post_unliked[of srv r1 uid ls e1] login req tbl unliked
    by (simp add: s1_def new_def i_def)
  have l1: "userId (sessions s1 (sid r2)) = Some uid" "likes s1 = Some (ls @ [new])"
    using login req by (simp_all add: s1_def)
  define s2 where "s2 = s1\<lparr>likes := Some ls\<rparr>"
  have c2: "like_post e2 s1 r2 = (JsonLiked False, s2)"
    using like_post_liked[of s1 r2 uid "ls @ [new]" e2] l1 login(2) req m keep
    by (simp add: s2_def)
  have l2: "userId (sessions s2 (sid r3)) = Some uid" "likes s2 = Some ls"
    using login req by (simp_all add: s2_def s1_def)
  have c3: "fst (like_post e3 s2 r3) = JsonLiked True"
    using like_post_unliked[of s2 r3 uid ls e3] l2 login(2) req unliked by simp
  show ?thesis
    using c1 c2 c3 tbl by (simp add: s2_def)
qed

text \<open>amina (cookie 1) toggles her like of post 1, which only user 7 has liked.\<close>

theorem like_toggle_witness:
  "fst (like_post env0 demo (request_of 1 1)) = JsonLiked True
   \<and> fst (like_post env0 (snd (like_post env0 demo (request_of 1 1))) (request_of 1 1))
       = JsonLiked False
   \<and> likes (snd (like_post env0 (snd (like_post env0 demo (request_of 1 1))) (request_of 1 1)))
       = Some demo_likes
   \<and> fst (like_post env0
            (snd (like_post env0 (snd (like_post env0 demo (request_of 1 1))) (request_of 1 1)))
            (request_of 1 1)) = JsonLiked True"
  using like_toggle[of demo 1 2 "request_of 1 1" "request_of 1 1" "request_of 1 1" 1
      demo_likes env0 env0 env0]
  by (simp add: demo_def demo_sessions_def demo_likes_def request_of_def like_matches_def)

subsection \<open>Messages of a user outside the chat\<close>

text \<open>
  \<^bold>\<open>C4.\<close> A logged-in user who is neither \<open>user1\<close> nor \<open>user2\<close> of a chat posts a message
  to it (chat ids are the primary key of the table). The answer is 403 with
  \<open>Access denied\<close> and the state after the request is the state before it: no row has
  been added to \<open>messages\<close>. (multer has stored an uploaded file by then; the disk is
  not part of the state.)
\<close>

theorem send_message_non_participant:
  assumes login: "userId (sessions srv (sid req)) = Some uid" "uid \<noteq> 0"
    and tbl: "chats srv = Some cs" "distinct (map ch_id cs)"
    and chat: "c \<in> set cs" "params_id req = ch_id c"
    and other: "ch_user1_id c \<noteq> Some uid" "ch_user2_id c \<noteq> Some uid"
  shows "send_message e srv req = (JsonError 403 ''Access denied'', srv)"
proof -
  have np: "\<not> (sql_eq (ch_user1_id c) (Some uid) \<or> sql_eq (ch_user2_id c) (Some uid))"
    using other by (cases "ch_user1_id c"; cases "ch_user2_id c") auto
  have "\<not> chat_of (ch_id c) (Some uid) c'" if "c' \<in> set cs" for c'
  proof
    assume a: "chat_of (ch_id c) (Some uid) c'"
    then have "ch_id c' = ch_id c" by (simp add: chat_of_def)
    then have "c' = c" using distinct_map_eq[OF tbl(2) that chat(1)] by simp
    then show False using a np by (simp add: chat_of_def)
  qed
  then have "find (chat_of (ch_id c) (Some uid)) cs = None"
    by (simp add: find_None_iff_all)
  then show ?thesis
    using login tbl(1) chat(2)
    by (simp add: send_message_def requireLogin_pass session_of_def Let_def)
qed

text \<open>amina (cookie 1) writes to chat 1, which is between the administrator and user 7.\<close>

theorem send_message_non_participant_witness:
  "send_message env0 demo ((request_of 1 1)\<lparr>body := (\<lambda>f. JStr ''haye'')\<rparr>)
     = (JsonError 403 ''Access denied'', demo)"
  using send_message_non_participant[of demo "(request_of 1 1)\<lparr>body := (\<lambda>f. JStr ''haye'')\<rparr>" 2
      demo_chats "\<lparr>ch_id = 1, ch_user1_id = Some 1, ch_user2_id = Some 7, ch_created_at = 80\<rparr>" env0]
  by (simp add: demo_def demo_sessions_def demo_chats_def request_of_def)

subsection \<open>Registering a username twice\<close>








subsection \<open>Login of a blocked user\<close>

lemma login_no_row:
  assumes "body req ''username'' = JStr un"
    and "\<forall>v\<in>set (users srv). \<not> (u_username v = toLowerCase e un \<and> u_is_blocked v = 0)"
  shows "login e srv req = (Send 200 ''Username ama password khalad'', srv)"
proof -
  have "find (\<lambda>u. u_username u = toLowerCase e un \<and> u_is_blocked u = 0) (users srv) = None"
    using assms(2) by (simp add: find_None_iff_all)
  then show ?thesis using assms(1) by (simp add: login_def)
qed

lemma demo_login_ok: "fst (login env0 demo (login_request ''Cali'' ''sir'')) = Redirect ''/''"
  by (simp add: login_def login_request_def request_of_def demo_def demo_users_def
      lower_ascii_def env0_def)

lemma demo_block_users:
  "users (snd (admin_block demo (block_request 7)))
     = demo_users[2 := (demo_users ! 2)\<lparr>u_is_blocked := 1\<rparr>]"
  by (simp add: admin_block_def requireAdmin_def no_userId_def session_of_def block_request_def
      request_of_def demo_def demo_sessions_def demo_users_def)

text \<open>
  \<^bold>\<open>C5.\<close> A row of the users table has \<open>is_blocked\<close> set (usernames are \<open>UNIQUE\<close>), and a
  login names its username, in any letter case (the runtime's \<^verbatim>\<open>toLowerCase\<close> gives the
  stored username). Whatever the password and whatever
  \<open>bcrypt.compare\<close> would say, the lookup \<open>WHERE username = ? AND is_blocked = 0\<close> finds
  no row: the route answers \<open>Username ama password khalad\<close> (the latest revision answers
  that or its 400 for an empty password) and no session is written.
\<close>

theorem blocked_login_fails:
  assumes usr: "u \<in> set (users srv)" "u_is_blocked u \<noteq> 0"
    and uniq: "distinct (map u_username (users srv))"
    and name: "body req ''username'' = JStr un" "toLowerCase e un = u_username u"
  shows "login e srv req = (Send 200 ''Username ama password khalad'', srv)
       \<and> (login_latest e srv req = (Send 200 ''Username ama password khalad'', srv)
          \<or> login_latest e srv req = (Send 400 ''Fadlan geli username iyo password'', srv))"
proof -
  have "\<not> (u_username v = toLowerCase e un \<and> u_is_blocked v = 0)"
    if "v \<in> set (users srv)" for v
  proof
    assume a: "u_username v = toLowerCase e un \<and> u_is_blocked v = 0"
    then have "v = u" using distinct_map_eq[OF uniq that usr(1)] name(2) by simp
    then show False using a usr(2) by simp
  qed
  then have "login e srv req = (Send 200 ''Username ama password khalad'', srv)"
    using login_no_row[OF name(1)] by blast
  then show ?thesis by (simp add: login_latest_def)
qed

text \<open>
  User 7 logs in with the right password; the administrator blocks user 7; the same
  login, with the password that still matches the stored hash, is refused.
\<close>

theorem blocked_login_fails_witness:
  "fst (login env0 demo (login_request ''Cali'' ''sir'')) = Redirect ''/''
   \<and> bcrypt_compare env0 ''sir'' ''$2a$10$sir''
   \<and> fst (login env0 (snd (admin_block demo (block_request 7))) (login_request ''Cali'' ''sir''))
       = Send 200 ''Username ama password khalad''
   \<and> fst (login_latest env0 (snd (admin_block demo (block_request 7)))
            (login_request ''Cali'' ''sir''))
       = Send 200 ''Username ama password khalad''"
proof -
  let ?s = "snd (admin_block demo (block_request 7))"
  let ?u = "(demo_users ! 2)\<lparr>u_is_blocked := 1\<rparr>"
  have h1: "?u \<in> set (users ?s)" "u_is_blocked ?u \<noteq> 0"
    by (simp_all add: demo_block_users) (simp add: demo_users_def)
  have h2: "distinct (map u_username (users ?s))"
    by (simp add: demo_block_users) (simp add: demo_users_def)
  have h3: "body (login_request ''Cali'' ''sir'') ''username'' = JStr ''Cali''"
    "toLowerCase env0 ''Cali'' = u_username ?u"
    by (simp_all add: login_request_def demo_users_def env0_def lower_ascii_def)
  have h4: "truthy (body (login_request ''Cali'' ''sir'') ''username'')"
     "truthy (body (login_request ''Cali'' ''sir'') ''password'')"
    by (simp_all add: login_request_def)
  show ?thesis
    using blocked_login_fails[OF h1 h2 h3] demo_login_ok h4
    by (simp add: env0_def login_latest_def)
qed

subsection \<open>Resetting a password\<close>

lemma reset_password_users:
  assumes "body req ''newPassword'' = JStr pw" "body req ''username'' = JStr un"
  shows "reset_password e srv req =
    (Script ''Password-kaaga si guul leh ayaa loo beddelay!'' ''/login.html'',
     srv\<lparr>users := map (\<lambda>u. if u_username u = un then u\<lparr>u_password := bcrypt_hash e pw\<rparr> else u)
                     (users srv)\<rparr>)"
  using assms by (simp add: reset_password_def)

text \<open>
  \<^bold>\<open>C8.\<close> A reset request names the username of a row of the users table and a new
  password. The route answers its success page and the row's password is the hash of the
  new password; the other columns and the rows of other usernames stay. Nothing else of
  the request or the state is consulted: the users table after the request is the same
  for every session store and cookie (no session), every \<open>bcrypt.compare\<close> (no check of
  the current password) and every body with these two fields (no token).
\<close>

theorem reset_password_overwrites:
  assumes usr: "u \<in> set (users srv)"
    and req: "body req ''username'' = JStr (u_username u)" "body req ''newPassword'' = JStr pw"
  shows "fst (reset_password e srv req)
           = Script ''Password-kaaga si guul leh ayaa loo beddelay!'' ''/login.html''
       \<and> users (snd (reset_password e srv req))
           = map (\<lambda>v. if u_username v = u_username u then v\<lparr>u_password := bcrypt_hash e pw\<rparr>
                       else v)
               (users srv)
       \<and> u\<lparr>u_password := bcrypt_hash e pw\<rparr> \<in> set (users (snd (reset_password e srv req)))
       \<and> (\<forall>ss k cmp b.
            b ''username'' = JStr (u_username u) \<longrightarrow> b ''newPassword'' = JStr pw \<longrightarrow>
            users (snd (reset_password (e\<lparr>bcrypt_compare := cmp\<rparr>) (srv\<lparr>sessions := ss\<rparr>)
                         (req\<lparr>sid := k, body := b\<rparr>)))
              = users (snd (reset_password e srv req)))"
proof -
  have a: "reset_password e srv req =
    (Script ''Password-kaaga si guul leh ayaa loo beddelay!'' ''/login.html'',
     srv\<lparr>users := map (\<lambda>v. if u_username v = u_username u
                              then v\<lparr>u_password := bcrypt_hash e pw\<rparr> else v)
                     (users srv)\<rparr>)"
    using reset_password_users[OF req(2) req(1)] .
  have b: "u\<lparr>u_password := bcrypt_hash e pw\<rparr> \<in> set (users (snd (reset_password e srv req)))"
    using usr by (force simp: a)
  have c: "users (snd (reset_password (e\<lparr>bcrypt_compare := cmp\<rparr>) (srv\<lparr>sessions := ss\<rparr>)
                         (req\<lparr>sid := k, body := b\<rparr>)))
              = users (snd (reset_password e srv req))"
    if "b ''username'' = JStr (u_username u)" "b ''newPassword'' = JStr pw" for ss k cmp b
    using req that by (simp add: reset_password_def)
  show ?thesis using a b c by simp
qed

text \<open>
  A browser with no session resets amina's password; the new password then logs in.
\<close>

theorem reset_password_overwrites_witness:
  "no_userId (session_of demo (reset_request ''amina'' ''mine''))
   \<and> map u_password (users (snd (reset_password env0 demo (reset_request ''amina'' ''mine''))))
       = [''$2a$10$admin123'', ''$2a$10$mine'', ''$2a$10$sir'']
   \<and> fst (login env0 (snd (reset_password env0 demo (reset_request ''amina'' ''mine'')))
            (login_request ''amina'' ''mine'')) = Redirect ''/''"
  using reset_password_overwrites[of "demo_users ! 1" demo "reset_request ''amina'' ''mine''"
      "''mine''" env0]
  by (simp add: reset_request_def request_of_def demo_def demo_users_def env0_def no_userId_def
      session_of_def demo_sessions_def empty_session_def login_def login_request_def
      lower_ascii_def)

subsection \<open>What the profile and the admin listing return\<close>

lemma find_Some_distinct:
  assumes "distinct (map f xs)" "x \<in> set xs"
  shows "find (\<lambda>y. f y = f x) xs = Some x"
  using assms
proof (induction xs)
  case Nil
  then show ?case by simp
next
  case (Cons a xs)
  then show ?case by (cases "a = x") (auto simp: image_iff)
qed

lemma requireAdmin_pass:
  "userId (sessions srv (sid req)) = Some uid \<Longrightarrow> uid \<noteq> 0
   \<Longrightarrow> isAdmin (sessions srv (sid req)) = Some True \<Longrightarrow> requireAdmin srv req = None"
  by (simp add: requireAdmin_def no_userId_def session_of_def)

lemma get_profile_row:
  assumes "userId (sessions srv (sid req)) = Some uid" "uid \<noteq> 0"
    and "likes srv = Some ls" "distinct (map u_username (users srv))"
    and "u \<in> set (users srv)" "params_username req = u_username u"
  shows "\<exists>row. get_profile srv req = JsonProfile row \<and> pr_user row = u"
  using assms find_Some_distinct[OF assms(4,5)]
  by (simp add: get_profile_def requireLogin_pass)

lemma admin_users_rows:
  assumes "userId (sessions srv (sid req)) = Some uid" "uid \<noteq> 0"
    and "isAdmin (sessions srv (sid req)) = Some True"
  shows "\<exists>rows. admin_users srv req = JsonAdminUsers rows \<and> au_user ` set rows = set (users srv)"
  using assms by (simp add: admin_users_def requireAdmin_pass image_image)

text \<open>
  \<^bold>\<open>C9.\<close> \<open>u\<close> is a row of the users table (usernames are \<open>UNIQUE\<close>). A logged-in
  requester who asks for the profile of \<open>u\<close>'s username gets a row whose user columns
  are the whole of \<open>u\<close>: the stored password hash, \<open>is_blocked\<close> and \<open>bio\<close> among them
  (the query reads the likes table, which must exist). An administrator who asks for
  the user listing gets one row for each user, each with all columns, so the hash of
  \<open>u\<close> is in the answer.
\<close>

theorem password_hash_in_responses:
  assumes usr: "u \<in> set (users srv)" and uniq: "distinct (map u_username (users srv))"
  shows "(userId (sessions srv (sid req)) = Some uid \<and> uid \<noteq> 0 \<and> likes srv = Some ls
          \<and> params_username req = u_username u
          \<longrightarrow> (\<exists>row. get_profile srv req = JsonProfile row \<and> pr_user row = u
                 \<and> u_password (pr_user row) = u_password u
                 \<and> u_is_blocked (pr_user row) = u_is_blocked u
                 \<and> u_bio (pr_user row) = u_bio u))
       \<and> (userId (sessions srv (sid areq)) = Some aid \<and> aid \<noteq> 0
          \<and> isAdmin (sessions srv (sid areq)) = Some True
          \<longrightarrow> (\<exists>rows. admin_users srv areq = JsonAdminUsers rows
                 \<and> au_user ` set rows = set (users srv)
                 \<and> u_password u \<in> (\<lambda>r. u_password (au_user r)) ` set rows))"
proof -
  have a: "\<exists>row. get_profile srv req = JsonProfile row \<and> pr_user row = u
                 \<and> u_password (pr_user row) = u_password u
                 \<and> u_is_blocked (pr_user row) = u_is_blocked u
                 \<and> u_bio (pr_user row) = u_bio u"
    if "userId (sessions srv (sid req)) = Some uid" "uid \<noteq> 0" "likes srv = Some ls"
       "params_username req = u_username u"
    using get_profile_row[OF that(1,2,3) uniq usr that(4)] by auto
  have b: "\<exists>rows. admin_users srv areq = JsonAdminUsers rows
                 \<and> au_user ` set rows = set (users srv)
                 \<and> u_password u \<in> (\<lambda>r. u_password (au_user r)) ` set rows"
    if adm: "userId (sessions srv (sid areq)) = Some aid" "aid \<noteq> 0"
       "isAdmin (sessions srv (sid areq)) = Some True"
  proof -
    obtain rows where r: "admin_users srv areq = JsonAdminUsers rows"
      "au_user ` set rows = set (users srv)"
      using admin_users_rows[OF adm] by blast
    then have "u \<in> au_user ` set rows" using usr by simp
    then have "u_password u \<in> (\<lambda>r. u_password (au_user r)) ` set rows" by force
    then show ?thesis using r by blast
  qed
  show ?thesis using a b by blast
qed

text \<open>
  User 7 (cookie 3) asks for amina's profile and reads her hash; the administrator
  (cookie 2) lists the users, newest first, each with its hash.
\<close>

theorem password_hash_in_responses_witness:
  "get_profile demo ((request_of 3 0)\<lparr>params_username := ''amina''\<rparr>)
     = JsonProfile \<lparr>pr_user = demo_users ! 1, pr_post_count = 2, pr_like_count = 2\<rparr>
   \<and> u_password (demo_users ! 1) = ''$2a$10$pass1234''
   \<and> admin_users demo (request_of 2 0)
     = JsonAdminUsers [\<lparr>au_user = demo_users ! 2, au_post_count = 1\<rparr>,
                       \<lparr>au_user = demo_users ! 1, au_post_count = 2\<rparr>,
                       \<lparr>au_user = demo_users ! 0, au_post_count = 0\<rparr>]"
  using password_hash_in_responses[of "demo_users ! 1" demo
      "(request_of 3 0)\<lparr>params_username := ''amina''\<rparr>" 7 demo_likes "request_of 2 0" 1]
  by (simp add: get_profile_def admin_users_def requireLogin_def requireAdmin_def no_userId_def
      session_of_def request_of_def demo_def demo_sessions_def demo_users_def demo_posts_def
      demo_likes_def post_count_def)

subsection \<open>What the block operation leaves alone\<close>

lemma admin_block_cases:
  "admin_block srv req = (Send 403 ''Admin access required'', srv)
   \<or> admin_block srv req =
       (JsonSuccess,
        srv\<lparr>users :=
              map (\<lambda>u. if u_id u = params_id req
                        then u\<lparr>u_is_blocked := (if truthy (body req ''blocked'') then 1 else 0)\<rparr>
                        else u)
                (users srv)\<rparr>)"
  by (simp add: admin_block_def requireAdmin_def)

lemma list_all2_map_same: "(\<And>x. x \<in> set xs \<Longrightarrow> P x (f x)) \<Longrightarrow> list_all2 P xs (map f xs)"
  by (induction xs) auto

text \<open>
  \<^bold>\<open>C10.\<close> The block route, whoever calls it with whatever body, leaves the session
  store and every table but \<open>users\<close> as they were; a row of \<open>users\<close> after the call is
  the row before it, or the row with the requested id with \<open>is_blocked\<close> rewritten.
  Both guards read the session store only, so they answer every request after the call
  as they would have before it: a session that passed keeps passing.
\<close>

theorem admin_block_frame:
  "sessions (snd (admin_block srv req)) = sessions srv
   \<and> posts (snd (admin_block srv req)) = posts srv
   \<and> likes (snd (admin_block srv req)) = likes srv
   \<and> comments (snd (admin_block srv req)) = comments srv
   \<and> chats (snd (admin_block srv req)) = chats srv
   \<and> messages (snd (admin_block srv req)) = messages srv
   \<and> sqlite_sequence (snd (admin_block srv req)) = sqlite_sequence srv
   \<and> list_all2 (\<lambda>u u'. u' = u \<or> (u_id u = params_id req \<and> (\<exists>b. u' = u\<lparr>u_is_blocked := b\<rparr>)))
       (users srv) (users (snd (admin_block srv req)))
   \<and> (\<forall>r. requireLogin (snd (admin_block srv req)) r = requireLogin srv r
          \<and> requireAdmin (snd (admin_block srv req)) r = requireAdmin srv r)"
proof -
  have same: "list_all2 (\<lambda>u u'. u' = u \<or> (u_id u = params_id req \<and> (\<exists>b. u' = u\<lparr>u_is_blocked := b\<rparr>)))
       (users srv) (users srv)"
    by (simp add: list_all2_same)
  have upd: "list_all2 (\<lambda>u u'. u' = u \<or> (u_id u = params_id req \<and> (\<exists>b. u' = u\<lparr>u_is_blocked := b\<rparr>)))
       (users srv)
       (map (\<lambda>u. if u_id u = params_id req
                  then u\<lparr>u_is_blocked := (if truthy (body req ''blocked'') then 1 else 0)\<rparr>
                  else u) (users srv))"
    by (rule list_all2_map_same) auto
  show ?thesis
    using admin_block_cases[of srv req] same upd
    by (auto simp: requireLogin_def requireAdmin_def session_of_def)
qed

text \<open>
  The administrator blocks user 7: the flag of that row is set, and cookie 3, which
  user 7 logged in with before, still passes \<open>requireLogin\<close>. An administrator that is
  blocked still passes \<open>requireAdmin\<close>.
\<close>

theorem admin_block_frame_witness:
  "map u_is_blocked (users (snd (admin_block demo (block_request 7)))) = [0, 0, 1]
   \<and> requireLogin demo (request_of 3 0) = None
   \<and> requireLogin (snd (admin_block demo (block_request 7))) (request_of 3 0) = None
   \<and> requireAdmin (snd (admin_block demo (block_request 1))) (request_of 2 0) = None"
  using admin_block_frame[of demo "block_request 7"] admin_block_frame[of demo "block_request 1"]
  by (simp add: demo_block_users)
     (simp add: demo_users_def requireLogin_def requireAdmin_def no_userId_def session_of_def
        request_of_def demo_def demo_sessions_def)

subsection \<open>The feed\<close>

lemma set_feed_rows:
  "fr_post ` set (feed_rows srv ls cs uid)
     = {p \<in> set (posts srv). visible_to uid p \<and> (\<exists>u\<in>set (users srv). p_user_id p = Some (u_id u))}"
proof -
  have "sql_eq a (Some b) \<longleftrightarrow> a = Some b" for a :: "nat option" and b
    by (cases a) auto
  then show ?thesis
    by (force simp: feed_rows_def image_iff)
qed

lemma newest_first_sorted:
  "sorted_wrt (\<lambda>a b. p_created_at (fr_post b) \<le> p_created_at (fr_post a)) (newest_first rows)"
proof -
  have "sorted (map (\<lambda>r. - int (p_created_at (fr_post r))) (newest_first rows))"
    unfolding newest_first_def by (rule sorted_sort_key)
  then show ?thesis
    by (simp add: sorted_map)
qed

lemma set_newest_first: "set (newest_first rows) = set rows"
  by (simp add: newest_first_def)

lemma sorted_wrt_take_drop:
  assumes "sorted_wrt R xs" "a \<in> set (take n xs)" "b \<in> set (drop n xs)"
  shows "R a b"
proof -
  have "sorted_wrt R (take n xs @ drop n xs)"
    using assms(1) by simp
  then show ?thesis
    using assms(2,3) unfolding sorted_wrt_append by blast
qed

lemma get_posts_rows:
  assumes "userId (sessions srv (sid req)) = Some uid" "uid \<noteq> 0"
    and "likes srv = Some ls" "comments srv = Some cs"
  shows "get_posts srv req = JsonPosts (newest_first (feed_rows srv ls cs (Some uid)))"
    and "get_posts_latest srv req = JsonPosts (take 50 (newest_first (feed_rows srv ls cs (Some uid))))"
  using assms
  by (simp_all add: get_posts_def get_posts_latest_def requireLogin_pass session_of_def)

text \<open>
  \<^bold>\<open>C6\<close>, as the code has it. A logged-in user asks for the feed, and the likes and
  comments tables, which the query reads, exist. The route answers the posts that pass
  the WHERE clause (public, or the requester's own) and whose author is still a row of
  \<open>users\<close> (the JOIN), each row no older than the next. The latest revision answers
  the first 50 of these rows: at most 50, still newest first, and every row it drops is
  no newer than any row it keeps.
\<close>

theorem get_posts_newest_first:
  assumes login: "userId (sessions srv (sid req)) = Some uid" "uid \<noteq> 0"
    and tbl: "likes srv = Some ls" "comments srv = Some cs"
  shows "\<exists>rows.
           get_posts srv req = JsonPosts rows
         \<and> fr_post ` set rows
             = {p \<in> set (posts srv). visible_to (Some uid) p
                  \<and> (\<exists>u\<in>set (users srv). p_user_id p = Some (u_id u))}
         \<and> sorted_wrt (\<lambda>a b. p_created_at (fr_post b) \<le> p_created_at (fr_post a)) rows
         \<and> get_posts_latest srv req = JsonPosts (take 50 rows)
         \<and> length (take 50 rows) \<le> 50
         \<and> sorted_wrt (\<lambda>a b. p_created_at (fr_post b) \<le> p_created_at (fr_post a)) (take 50 rows)
         \<and> (\<forall>a\<in>set (take 50 rows). \<forall>b\<in>set (drop 50 rows).
               p_created_at (fr_post b) \<le> p_created_at (fr_post a))"
proof -
  let ?rows = "newest_first (feed_rows srv ls cs (Some uid))"
  let ?R = "\<lambda>a b. p_created_at (fr_post b) \<le> p_created_at (fr_post a)"
  have s: "sorted_wrt ?R ?rows"
    by (rule newest_first_sorted)
  have st: "sorted_wrt ?R (take 50 ?rows)"
    using s by (rule sorted_wrt_take)
  have cut: "\<forall>a\<in>set (take 50 ?rows). \<forall>b\<in>set (drop 50 ?rows). ?R a b"
    using sorted_wrt_take_drop[OF s] by blast
  have vis: "fr_post ` set ?rows
             = {p \<in> set (posts srv). visible_to (Some uid) p
                  \<and> (\<exists>u\<in>set (users srv). p_user_id p = Some (u_id u))}"
    by (simp add: set_newest_first set_feed_rows)
  show ?thesis
    using get_posts_rows[OF login tbl] s st cut vis by (intro exI[of _ ?rows]) simp
qed

text \<open>
  amina's feed: her private post (the newer one) and her public post; the post of
  user 7, whose privacy is NULL, is not in it.
\<close>

theorem get_posts_newest_first_witness:
  "get_posts demo (request_of 1 0)
     = JsonPosts
         [\<lparr>fr_post = demo_posts ! 1, fr_username = ''amina'',
           fr_profile_image = ''images/default-profile.png'', fr_like_count = 1,
           fr_comment_count = 0, fr_user_liked = True\<rparr>,
          \<lparr>fr_post = demo_posts ! 0, fr_username = ''amina'',
           fr_profile_image = ''images/default-profile.png'', fr_like_count = 1,
           fr_comment_count = 1, fr_user_liked = False\<rparr>]
   \<and> get_posts_latest demo (request_of 1 0) = get_posts demo (request_of 1 0)"
  using get_posts_newest_first[of demo "request_of 1 0" 2 demo_likes
      "[\<lparr>c_id = 1, c_post_id = 1, c_user_id = Some 1, c_content = Some ''haye'',
         c_created_at = 65\<rparr>]"]
  by (simp add: get_posts_def get_posts_latest_def requireLogin_def no_userId_def session_of_def
      request_of_def demo_def demo_sessions_def demo_users_def demo_posts_def demo_likes_def
      feed_rows_def newest_first_def visible_to_def Let_def)

lemma orphaned_users: "map u_id (users orphaned) = [1, 7]"
  by (simp add: orphaned_def delete_user_def requireAdmin_def no_userId_def session_of_def
      request_of_def demo_def demo_sessions_def demo_users_def)

lemma orphaned_feed:
  "get_posts orphaned (request_of 3 0)
     = JsonPosts [\<lparr>fr_post = demo_posts ! 2, fr_username = ''cali'',
                   fr_profile_image = ''uploads/1-cali.png'', fr_like_count = 0,
                   fr_comment_count = 0, fr_user_liked = False\<rparr>]"
  "get_posts_latest orphaned (request_of 3 0) = get_posts orphaned (request_of 3 0)"
  by (simp_all add: orphaned_def delete_user_def requireAdmin_def get_posts_def
      get_posts_latest_def requireLogin_def no_userId_def session_of_def request_of_def
      demo_def demo_sessions_def demo_users_def demo_posts_def demo_likes_def feed_rows_def
      newest_first_def visible_to_def Let_def)

text \<open>
  The claim as written fails: the administrator deletes amina, her public post stays
  in \<open>posts\<close> (the DELETE does not cascade) and passes the WHERE clause for user 7
  (cookie 3), but the JOIN finds no author and the feed of user 7 holds only his own
  post, in both revisions.
\<close>

theorem feed_orphan_counterexample:
  "demo_posts ! 0 \<in> set (posts orphaned)
   \<and> p_privacy (demo_posts ! 0) = Some ''public''
   \<and> visible_to (userId (sessions orphaned (sid (request_of 3 0)))) (demo_posts ! 0)
   \<and> requireLogin orphaned (request_of 3 0) = None
   \<and> posts_of (get_posts orphaned (request_of 3 0)) = [demo_posts ! 2]
   \<and> posts_of (get_posts_latest orphaned (request_of 3 0)) = [demo_posts ! 2]
   \<and> demo_posts ! 0 \<notin> set (posts_of (get_posts orphaned (request_of 3 0)))"
  by (simp add: orphaned_feed)
     (simp add: orphaned_def delete_user_def requireAdmin_def requireLogin_def no_userId_def
        session_of_def request_of_def demo_def demo_sessions_def demo_posts_def visible_to_def)

subsection \<open>Private posts in the feed\<close>

lemma requireLogin_no_posts: "requireLogin srv req = Some r \<Longrightarrow> posts_of r = []"
  by (auto simp: requireLogin_def server_error_def split: if_splits option.splits)

lemma posts_of_subset_feed:
  "set (posts_of (get_posts srv req))
     \<subseteq> {p. visible_to (userId (sessions srv (sid req))) p}"
  "set (posts_of (get_posts_latest srv req))
     \<subseteq> {p. visible_to (userId (sessions srv (sid req))) p}"
proof -
  have rows: "fr_post ` set (newest_first (feed_rows srv ls cs uid)) \<subseteq> {p. visible_to uid p}"
    for ls cs uid
    by (auto simp: set_newest_first feed_rows_def)
  have cut: "fr_post ` set (take 50 (newest_first (feed_rows srv ls cs uid)))
               \<subseteq> {p. visible_to uid p}" for ls cs uid
    using rows[of ls cs uid] set_take_subset[of 50 "newest_first (feed_rows srv ls cs uid)"]
    by blast
  show "set (posts_of (get_posts srv req))
     \<subseteq> {p. visible_to (userId (sessions srv (sid req))) p}"
    using rows
    by (auto simp: get_posts_def session_of_def Let_def requireLogin_no_posts
        split: option.splits)
  show "set (posts_of (get_posts_latest srv req))
     \<subseteq> {p. visible_to (userId (sessions srv (sid req))) p}"
    using cut
    by (auto simp: get_posts_latest_def session_of_def Let_def requireLogin_no_posts
        split: option.splits)
qed

lemma in_take_of_sorted:
  fixes k :: "'a \<Rightarrow> nat"
  assumes srt: "sorted_wrt (\<lambda>a b. k b \<le> k a) xs" and mem: "x \<in> set xs"
    and few: "length (filter (\<lambda>r. k x \<le> k r) xs) \<le> n"
  shows "x \<in> set (take n xs)"
proof -
  obtain i where i: "i < length xs" "xs ! i = x"
    using mem by (auto simp: in_set_conv_nth)
  have "k x \<le> k r" if rin: "r \<in> set (take (Suc i) xs)" for r
  proof -
    obtain j where j: "j < Suc i" "j < length xs" "r = xs ! j"
      using rin by (auto simp: in_set_conv_nth)
    show ?thesis
    proof (cases "j = i")
      case True
      then show ?thesis using i j by simp
    next
      case False
      then have "j < i" using j by simp
      then show ?thesis using sorted_wrt_nth_less[OF srt _ i(1), of j] i j by simp
    qed
  qed
  then have "filter (\<lambda>r. k x \<le> k r) (take (Suc i) xs) = take (Suc i) xs"
    by (simp add: filter_id_conv)
  moreover have "filter (\<lambda>r. k x \<le> k r) xs
      = filter (\<lambda>r. k x \<le> k r) (take (Suc i) xs) @ filter (\<lambda>r. k x \<le> k r) (drop (Suc i) xs)"
    by (metis append_take_drop_id filter_append)
  ultimately have "Suc i \<le> length (filter (\<lambda>r. k x \<le> k r) xs)"
    using i(1) by simp
  then have "i < n" using few by simp
  then show ?thesis
    using i by (auto simp: in_set_conv_nth)
qed

lemma busy_latest_ids:
  "map p_id (posts_of (get_posts_latest busy (request_of 1 0))) = rev [100..<150]"
  by code_simp

text \<open>
  \<^bold>\<open>C1\<close>, as the code has it. \<open>p\<close> is a post whose privacy is not \<open>public\<close>, and the
  requester's session belongs to user \<open>uid\<close>. If \<open>uid\<close> is not the owner, \<open>p\<close> is in no
  answer of the feed route, in either revision and whatever the state of the tables.
  If \<open>uid\<close> is the owner and is logged in, the likes and comments tables that the query
  reads exist, and the owner still has a row in \<open>users\<close> (the JOIN), then \<open>p\<close> is in the
  answer of the server.js revision; under the same conditions it is in the answer of
  the latest revision when at most 50 rows of the query, \<open>p\<close>'s own included, are as new
  as \<open>p\<close> or newer.
\<close>

theorem feed_privacy:
  assumes post: "p \<in> set (posts srv)" "p_privacy p \<noteq> Some ''public''"
    and sess: "userId (sessions srv (sid req)) = Some uid"
  shows "(p_user_id p \<noteq> Some uid
          \<longrightarrow> p \<notin> set (posts_of (get_posts srv req))
              \<and> p \<notin> set (posts_of (get_posts_latest srv req)))
       \<and> (p_user_id p = Some uid \<and> uid \<noteq> 0 \<and> likes srv = Some ls \<and> comments srv = Some cs
            \<and> (\<exists>u\<in>set (users srv). u_id u = uid)
          \<longrightarrow> p \<in> set (posts_of (get_posts srv req))
              \<and> (length (filter (\<lambda>r. p_created_at p \<le> p_created_at (fr_post r))
                           (feed_rows srv ls cs (Some uid))) \<le> 50
                 \<longrightarrow> p \<in> set (posts_of (get_posts_latest srv req))))"
proof -
  have hidden: "p \<notin> set (posts_of (get_posts srv req))
              \<and> p \<notin> set (posts_of (get_posts_latest srv req))"
    if other: "p_user_id p \<noteq> Some uid"
  proof -
    have "\<not> visible_to (Some uid) p"
      using post(2) other by (cases "p_user_id p") (auto simp: visible_to_def)
    then show ?thesis
      using posts_of_subset_feed[of srv req] sess by auto
  qed
  have shown: "p \<in> set (posts_of (get_posts srv req))
              \<and> (length (filter (\<lambda>r. p_created_at p \<le> p_created_at (fr_post r))
                           (feed_rows srv ls cs (Some uid))) \<le> 50
                 \<longrightarrow> p \<in> set (posts_of (get_posts_latest srv req)))"
    if own: "p_user_id p = Some uid" and login: "uid \<noteq> 0"
      and tbl: "likes srv = Some ls" "comments srv = Some cs"
      and row: "\<exists>u\<in>set (users srv). u_id u = uid"
  proof -
    let ?rows = "newest_first (feed_rows srv ls cs (Some uid))"
    let ?k = "\<lambda>r. p_created_at (fr_post r)"
    have "visible_to (Some uid) p"
      using own by (simp add: visible_to_def)
    then have "p \<in> fr_post ` set (feed_rows srv ls cs (Some uid))"
      using post(1) own row unfolding set_feed_rows by auto
    then obtain x where x: "x \<in> set ?rows" "fr_post x = p"
      by (auto simp: set_newest_first)
    have a: "p \<in> set (posts_of (get_posts srv req))"
      using get_posts_rows(1)[OF sess login tbl] x by force
    have b: "p \<in> set (posts_of (get_posts_latest srv req))"
      if few: "length (filter (\<lambda>r. p_created_at p \<le> ?k r) (feed_rows srv ls cs (Some uid))) \<le> 50"
    proof -
      have "length (filter (\<lambda>r. ?k x \<le> ?k r) ?rows)
              = length (filter (\<lambda>r. p_created_at p \<le> ?k r) (feed_rows srv ls cs (Some uid)))"
        using x(2) by (simp add: newest_first_def filter_sort)
      then have "x \<in> set (take 50 ?rows)"
        using in_take_of_sorted[of ?k ?rows x 50] newest_first_sorted x(1) few by simp
      then show ?thesis
        using get_posts_rows(2)[OF sess login tbl] x(2) by force
    qed
    show ?thesis using a b by blast
  qed
  show ?thesis using hidden shown by blast
qed

text \<open>
  amina's private post: user 7 (cookie 3) does not get it, amina (cookie 1) does, in
  both revisions.
\<close>

theorem feed_privacy_witness:
  "demo_posts ! 1 \<notin> set (posts_of (get_posts demo (request_of 3 0)))
   \<and> demo_posts ! 1 \<notin> set (posts_of (get_posts_latest demo (request_of 3 0)))
   \<and> demo_posts ! 1 \<in> set (posts_of (get_posts demo (request_of 1 0)))
   \<and> demo_posts ! 1 \<in> set (posts_of (get_posts_latest demo (request_of 1 0)))"
proof -
  have cs: "comments demo = Some [\<lparr>c_id = 1, c_post_id = 1, c_user_id = Some 1,
              c_content = Some ''haye'', c_created_at = 65\<rparr>]"
    by (simp add: demo_def)
  have h: "demo_posts ! 1 \<in> set (posts demo)" "p_privacy (demo_posts ! 1) \<noteq> Some ''public''"
    "userId (sessions demo (sid (request_of 3 0))) = Some 7"
    "userId (sessions demo (sid (request_of 1 0))) = Some 2"
    "p_user_id (demo_posts ! 1) = Some 2" "likes demo = Some demo_likes"
    "\<exists>u\<in>set (users demo). u_id u = 2"
    by (simp_all add: demo_def demo_posts_def demo_sessions_def request_of_def demo_users_def)
  have few: "length (filter (\<lambda>r. p_created_at (demo_posts ! 1) \<le> p_created_at (fr_post r))
               (feed_rows demo demo_likes
                  [\<lparr>c_id = 1, c_post_id = 1, c_user_id = Some 1, c_content = Some ''haye'',
                    c_created_at = 65\<rparr>] (Some 2))) \<le> 50"
    by (rule order_trans[OF length_filter_le])
       (simp add: feed_rows_def demo_def demo_posts_def demo_users_def visible_to_def)
  show ?thesis
    using feed_privacy[OF h(1,2,3), of demo_likes "[]"]
      feed_privacy[OF h(1,2,4), of demo_likes
        "[\<lparr>c_id = 1, c_post_id = 1, c_user_id = Some 1, c_content = Some ''haye'',
           c_created_at = 65\<rparr>]"]
      h(5,6,7) cs few
    by simp
qed

text \<open>
  The claim as written fails for the owner in the latest revision: after fifty newer
  public posts, amina's private post is no longer among the 50 rows of her own feed.
\<close>

theorem feed_owner_counterexample:
  "demo_posts ! 1 \<in> set (posts busy)
   \<and> p_privacy (demo_posts ! 1) = Some ''private''
   \<and> p_user_id (demo_posts ! 1) = userId (sessions busy (sid (request_of 1 0)))
   \<and> length (posts_of (get_posts_latest busy (request_of 1 0))) = 50
   \<and> demo_posts ! 1 \<notin> set (posts_of (get_posts_latest busy (request_of 1 0)))"
proof -
  have "p_id (demo_posts ! 1) \<notin> set (map p_id (posts_of (get_posts_latest busy (request_of 1 0))))"
    unfolding busy_latest_ids by (simp add: demo_posts_def)
  then have out: "demo_posts ! 1 \<notin> set (posts_of (get_posts_latest busy (request_of 1 0)))"
    by force
  have len: "length (posts_of (get_posts_latest busy (request_of 1 0))) = 50"
    using arg_cong[OF busy_latest_ids, of length] by simp
  show ?thesis
    using out len
    by (simp add: busy_def demo_def demo_posts_def demo_sessions_def request_of_def)
qed

subsection \<open>Creating a post\<close>

lemma create_post_latest_rejects:
  assumes "userId (sessions srv (sid req)) = Some uid" "uid \<noteq> 0"
    and "req_files req = Some f"
    and "\<not> truthy (body req ''content'')" "f ''image'' = None" "f ''video'' = None"
        "f ''audio'' = None"
  shows "create_post_latest e srv req = (Send 400 ''Fadlan geli content ama dooro file'', srv)"
  using assms by (simp add: create_post_latest_def requireLogin_pass Let_def)

lemma create_post_latest_default:
  assumes "userId (sessions srv (sid req)) = Some uid" "uid \<noteq> 0"
    and "req_files req = Some f"
    and "truthy (body req ''content'') \<or> f ''image'' \<noteq> None \<or> f ''video'' \<noteq> None
         \<or> f ''audio'' \<noteq> None"
    and "body req ''privacy'' = Undefined"
  shows "create_post_latest e srv req =
           (Redirect ''/'', insert_post e srv req (body req ''content'') (JStr ''public''))"
  using assms by (auto simp: create_post_latest_def requireLogin_pass Let_def)

lemma insert_post_row:
  "\<exists>p. posts (insert_post e srv req content privacy) = posts srv @ [p]
       \<and> p_privacy p = bind_text privacy \<and> p_user_id p = userId (sessions srv (sid req))"
  by (simp add: insert_post_def Let_def session_of_def)

lemma create_post_no_validation:
  assumes "userId (sessions srv (sid req)) = Some uid" "uid \<noteq> 0"
  shows "fst (create_post e srv req) = Redirect ''/''"
    and "\<exists>p. posts (snd (create_post e srv req)) = posts srv @ [p]"
proof -
  have c: "create_post e srv req
             = (Redirect ''/'', insert_post e srv req (body req ''content'') (body req ''privacy''))"
    using assms by (simp add: create_post_def requireLogin_pass)
  show "fst (create_post e srv req) = Redirect ''/''"
    using c by simp
  show "\<exists>p. posts (snd (create_post e srv req)) = posts srv @ [p]"
    using insert_post_row[of e srv req "body req ''content''" "body req ''privacy''"] c by auto
qed

text \<open>
  \<^bold>\<open>C7\<close>, as the code has it: the claim holds of the latest revision. There, a
  logged-in user's multipart submission (one that multer has passed on to the route)
  with no content and no image, video or audio file is answered 400 with
  \<open>Fadlan geli content ama dooro file\<close> and changes nothing; a submission that has one of
  them and no privacy field stores one new post, of that user, with the privacy
  \<open>public\<close>.
\<close>

theorem create_post_validation:
  assumes login: "userId (sessions srv (sid req)) = Some uid" "uid \<noteq> 0"
    and multipart: "req_files req = Some f"
  shows "(\<not> truthy (body req ''content'') \<and> f ''image'' = None \<and> f ''video'' = None
            \<and> f ''audio'' = None
          \<longrightarrow> create_post_latest e srv req
                = (Send 400 ''Fadlan geli content ama dooro file'', srv))
       \<and> ((truthy (body req ''content'') \<or> f ''image'' \<noteq> None \<or> f ''video'' \<noteq> None
             \<or> f ''audio'' \<noteq> None) \<and> body req ''privacy'' = Undefined
          \<longrightarrow> fst (create_post_latest e srv req) = Redirect ''/''
              \<and> (\<exists>p. posts (snd (create_post_latest e srv req)) = posts srv @ [p]
                     \<and> p_privacy p = Some ''public'' \<and> p_user_id p = Some uid))"
proof -
  have a: "create_post_latest e srv req = (Send 400 ''Fadlan geli content ama dooro file'', srv)"
    if "\<not> truthy (body req ''content'') \<and> f ''image'' = None \<and> f ''video'' = None
            \<and> f ''audio'' = None"
    using create_post_latest_rejects[OF login multipart] that by blast
  have b: "fst (create_post_latest e srv req) = Redirect ''/''
              \<and> (\<exists>p. posts (snd (create_post_latest e srv req)) = posts srv @ [p]
                     \<and> p_privacy p = Some ''public'' \<and> p_user_id p = Some uid)"
    if ok: "(truthy (body req ''content'') \<or> f ''image'' \<noteq> None \<or> f ''video'' \<noteq> None
             \<or> f ''audio'' \<noteq> None) \<and> body req ''privacy'' = Undefined"
  proof -
    have "create_post_latest e srv req =
           (Redirect ''/'', insert_post e srv req (body req ''content'') (JStr ''public''))"
      using create_post_latest_default[OF login multipart] ok by blast
    then show ?thesis
      using insert_post_row[of e srv req "body req ''content''" "JStr ''public''"] login(1)
      by simp
  qed
  show ?thesis using a b by simp
qed

text \<open>
  amina's empty form is refused by the latest revision; her form with the text
  \<open>Salaan\<close> and no privacy field becomes post 4, public.
\<close>

theorem create_post_validation_witness:
  "create_post_latest env0 demo (post_request (\<lambda>f. Undefined))
     = (Send 400 ''Fadlan geli content ama dooro file'', demo)
   \<and> fst (create_post_latest env0 demo (post_request ((\<lambda>f. Undefined)(''content'' := JStr ''Salaan''))))
     = Redirect ''/''
   \<and> posts (snd (create_post_latest env0 demo
                   (post_request ((\<lambda>f. Undefined)(''content'' := JStr ''Salaan'')))))
     = demo_posts @
       [\<lparr>p_id = 4, p_user_id = Some 2, p_content = Some ''Salaan'', p_image = None,
         p_video = None, p_audio = None, p_privacy = Some ''public'', p_created_at = 100\<rparr>]"
  using create_post_validation[of demo "post_request (\<lambda>f. Undefined)" 2 "\<lambda>f. None" env0]
    create_post_validation[of demo "post_request ((\<lambda>f. Undefined)(''content'' := JStr ''Salaan''))"
      2 "\<lambda>f. None" env0]
  by (simp add: post_request_def request_of_def demo_def demo_sessions_def)
     (simp add: create_post_latest_def requireLogin_def no_userId_def session_of_def
        insert_post_def next_rowid_def upload_path_def Let_def demo_posts_def env0_def
        post_request_def request_of_def demo_def demo_sessions_def)

text \<open>
  The claim as written fails on the server.js revision: amina's empty form is answered
  with the redirect, and a post with no content, no file and a NULL privacy is stored.
\<close>

theorem create_post_counterexample:
  "\<not> truthy (body (post_request (\<lambda>f. Undefined)) ''content'')
   \<and> req_files (post_request (\<lambda>f. Undefined)) = Some (\<lambda>f. None)
   \<and> fst (create_post env0 demo (post_request (\<lambda>f. Undefined))) = Redirect ''/''
   \<and> posts (snd (create_post env0 demo (post_request (\<lambda>f. Undefined))))
     = demo_posts @
       [\<lparr>p_id = 4, p_user_id = Some 2, p_content = None, p_image = None,
         p_video = None, p_audio = None, p_privacy = None, p_created_at = 100\<rparr>]"
  by (simp add: create_post_def requireLogin_def no_userId_def session_of_def insert_post_def
      next_rowid_def upload_path_def Let_def demo_posts_def env0_def post_request_def
      request_of_def demo_def demo_sessions_def)

text \<open>
  A submission that is not multipart: multer leaves \<open>req.files\<close> undefined, the latest
  revision reads \<open>req.files.image\<close> and a logged-in user is answered 500, with or without
  content; the server.js revision, which reads \<open>req.files?.image\<close>, stores the post.
\<close>

theorem create_post_latest_not_multipart:
  assumes "userId (sessions srv (sid req)) = Some uid" "uid \<noteq> 0"
    and "req_files req = None"
  shows "create_post_latest e srv req = (Send 500 ''Server error'', srv)
       \<and> fst (create_post e srv req) = Redirect ''/''"
  using assms
  by (simp add: create_post_latest_def create_post_def requireLogin_pass Let_def server_error_def)

theorem create_post_latest_not_multipart_witness:
  "create_post_latest env0 demo
       ((request_of 1 0)\<lparr>body := (\<lambda>f. Undefined)(''content'' := JStr ''Salaan'')\<rparr>)
     = (Send 500 ''Server error'', demo)"
  using create_post_latest_not_multipart[of demo
      "(request_of 1 0)\<lparr>body := (\<lambda>f. Undefined)(''content'' := JStr ''Salaan'')\<rparr>" 2 env0]
  by (simp add: request_of_def demo_def demo_sessions_def)

text \<open>
  The feed on a database without the likes or the comments table, as the one that the
  latest revision creates: a logged-in user is answered 500 with \<open>Database error\<close>.
\<close>

theorem feed_without_tables:
  assumes "userId (sessions srv (sid req)) = Some uid" "uid \<noteq> 0"
    and "likes srv = None \<or> comments srv = None"
  shows "get_posts srv req = JsonError 500 ''Database error''
       \<and> get_posts_latest srv req = JsonError 500 ''Database error''"
  using get_posts_no_table[OF assms] by simp

theorem feed_without_tables_witness:
  "likes (startup_latest env0 new_file) = None
   \<and> get_posts_latest latest_db (request_of 9 0) = JsonError 500 ''Database error''"
  using feed_without_tables[of latest_db "request_of 9 0" 2] latest_db_facts(1)[of 0]
    latest_db_facts(2)
  by (simp add: startup_latest_tables new_file_def)

end
